theory Spec2Isabelle
  imports Complex_Main
begin

section \<open>Takam Tourism: the application shell and the satellite map view of App.tsx\<close>

text \<open>
  The development embeds the behavioural parts of \<^verbatim>\<open>src/App.tsx\<close>: the trail-distance
  helper, the Leaflet map view with its effect and its two camera buttons, and the
  state transitions of the \<^verbatim>\<open>App\<close> component (geolocation callbacks, the startup
  fetches and the image upload). A JavaScript number is represented by the
  real it denotes; where the program does arithmetic on numbers, the rounding
  operations of the platform are parameters.
\<close>

subsection \<open>Data\<close>

text \<open>
  The three interfaces declared at the end of the file. Field names that occur in
  more than one record (\<open>name\<close>, \<open>altitude\<close>, \<open>lat\<close>, \<open>lng\<close>) are written
  with their record's name below.
\<close>

record MountainInfo =
  name :: string
  elevation :: string
  significance :: string
  difficulty :: string
  weatherForecast :: "string option"
  description :: string

record VillageInfo =
  name :: string
  region :: string
  altitude :: string
  culture :: string
  highlights :: "string list"

record TrekPoint =
  day :: real
  altitude :: real
  label :: string
  lat :: real
  lng :: real

text \<open>The object types written inline in \<^verbatim>\<open>useState\<close>.\<close>

record Weather =
  temp :: real
  desc :: string

record Location =
  lat :: real
  lng :: real

text \<open>
  The fields of \<^verbatim>\<open>GeolocationCoordinates\<close> that the callbacks read; the platform
  reports \<^verbatim>\<open>altitude\<close> as a number or \<^verbatim>\<open>null\<close>.
\<close>

record Coords =
  latitude :: real
  longitude :: real
  altitude :: "real option"

datatype tab = Home | Scanner | Trek | About

text \<open>
  How an awaited promise settles. Where a call may also stay pending for ever, its
  outcome is an \<open>option\<close> and \<open>None\<close> is the call that never settles.
\<close>

datatype 'a settled = Resolved 'a | Rejected string

subsection \<open>Waypoints\<close>

definition MOCK_TREK_DATA :: "TrekPoint list" where
  "MOCK_TREK_DATA =
    [ \<lparr> day = 1, TrekPoint.altitude = 830, label = ''Beni'', TrekPoint.lat = 28.3444, TrekPoint.lng = 83.5651 \<rparr>,
      \<lparr> day = 2, TrekPoint.altitude = 1200, label = ''Darbang'', TrekPoint.lat = 28.4067, TrekPoint.lng = 83.4000 \<rparr>,
      \<lparr> day = 3, TrekPoint.altitude = 1670, label = ''Takam Village'', TrekPoint.lat = 28.4230, TrekPoint.lng = 83.3333 \<rparr>,
      \<lparr> day = 4, TrekPoint.altitude = 2200, label = ''Muri Village'', TrekPoint.lat = 28.4833, TrekPoint.lng = 83.2500 \<rparr>,
      \<lparr> day = 5, TrekPoint.altitude = 3100, label = ''Boghara'', TrekPoint.lat = 28.5333, TrekPoint.lng = 83.2333 \<rparr>,
      \<lparr> day = 6, TrekPoint.altitude = 3660, label = ''Dobang'', TrekPoint.lat = 28.5833, TrekPoint.lng = 83.2167 \<rparr>,
      \<lparr> day = 7, TrekPoint.altitude = 4740, label = ''Dhaulagiri BC'', TrekPoint.lat = 28.6750, TrekPoint.lng = 83.4722 \<rparr> ]"

subsection \<open>The distance helper\<close>

text \<open>A Leaflet \<^verbatim>\<open>LatLng\<close> is a pair of degrees, built by \<^verbatim>\<open>L.latLng(lat, lng)\<close>.\<close>

type_synonym LatLng = "real \<times> real"

definition latLng :: "real \<Rightarrow> real \<Rightarrow> LatLng" where
  "latLng la lo = (la, lo)"
















subsection \<open>The application shell: state and effects\<close>

text \<open>
  The eight \<^verbatim>\<open>useState\<close> cells of \<^verbatim>\<open>App\<close>, followed by what the browser shows or
  keeps on the component's behalf: the \<^verbatim>\<open>alert\<close> boxes shown so far, the lines written
  with \<^verbatim>\<open>console.error\<close>, whether \<^verbatim>\<open>navigator\<close> has \<^verbatim>\<open>geolocation\<close>, and the
  position watches that are registered.
\<close>

record shell =
  activeTab :: tab
  landmark :: "MountainInfo option"
  village :: "VillageInfo option"
  loading :: bool
  weatherData :: "Weather option"
  currentAltitude :: "real option"
  currentLocation :: Location
  previewImage :: "string option"
  alerts :: "string list"
  console :: "string list"
  geolocation :: bool
  watches :: "nat list"
  nextWatchId :: nat

definition initial_shell :: "bool \<Rightarrow> shell" where
  "initial_shell geo =
     \<lparr> activeTab = Home, landmark = None, village = None, loading = False,
       weatherData = None, currentAltitude = None,
       currentLocation = \<lparr> Location.lat = 28.4230, Location.lng = 83.3333 \<rparr>,
       previewImage = None,
       alerts = [], console = [], geolocation = geo, watches = [], nextWatchId = 1 \<rparr>"

text \<open>
  A handler is the list of the effects it performs, in program order: the state
  setters, the two browser calls, and the calls to the services of
  \<^verbatim>\<open>./services/geminiService\<close> and to the file reader, whose answers are inputs of
  the handler. A \<^verbatim>\<open>File\<close> is represented by a name.
\<close>

type_synonym File = string

datatype action =
    SetActiveTab tab
  | SetLandmark "MountainInfo option"
  | SetVillage VillageInfo
  | SetLoading bool
  | SetWeatherData Weather
  | SetCurrentAltitude real
  | SetCurrentLocation Location
  | SetPreviewImage "string option"
  | Alert string
  | ConsoleError string
  | ReadAsDataURL File
  | IdentifyLandmark "string option"
  | GetVillageInsights string
  | GetSearchInfo string

fun perform :: "action \<Rightarrow> shell \<Rightarrow> shell" where
  "perform (SetActiveTab t) s = s\<lparr>activeTab := t\<rparr>"
| "perform (SetLandmark l) s = s\<lparr>landmark := l\<rparr>"
| "perform (SetVillage v) s = s\<lparr>village := Some v\<rparr>"
| "perform (SetLoading b) s = s\<lparr>loading := b\<rparr>"
| "perform (SetWeatherData w) s = s\<lparr>weatherData := Some w\<rparr>"
| "perform (SetCurrentAltitude a) s = s\<lparr>currentAltitude := Some a\<rparr>"
| "perform (SetCurrentLocation l) s = s\<lparr>currentLocation := l\<rparr>"
| "perform (SetPreviewImage p) s = s\<lparr>previewImage := p\<rparr>"
| "perform (Alert m) s = s\<lparr>alerts := alerts s @ [m]\<rparr>"
| "perform (ConsoleError e) s = s\<lparr>console := console s @ [e]\<rparr>"
| "perform (ReadAsDataURL f) s = s"
| "perform (IdentifyLandmark d) s = s"
| "perform (GetVillageInsights n) s = s"
| "perform (GetSearchInfo q) s = s"

fun exec :: "action list \<Rightarrow> shell \<Rightarrow> shell" where
  "exec [] s = s"
| "exec (a # as) s = exec as (perform a s)"

subsection \<open>Geolocation callbacks and the watch subscription\<close>

text \<open>\<^verbatim>\<open>Math.round\<close>: the nearest integer, the larger one on a tie.\<close>

definition Math_round :: "real \<Rightarrow> real" where
  "Math_round x = of_int \<lfloor>x + 1 / 2\<rfloor>"

text \<open>
  The success callback of \<^verbatim>\<open>getCurrentPosition\<close> and the one of \<^verbatim>\<open>watchPosition\<close>
  have the same body.
\<close>

definition on_position :: "Coords \<Rightarrow> action list" where
  "on_position coords =
     SetCurrentLocation \<lparr> Location.lat = latitude coords, Location.lng = longitude coords \<rparr> #
     (case Coords.altitude coords of
        None \<Rightarrow> []
      | Some a \<Rightarrow> [SetCurrentAltitude (Math_round a)])"

definition on_watch_error :: "string \<Rightarrow> action list" where
  "on_watch_error error = [ConsoleError error]"

text \<open>
  The second effect of \<^verbatim>\<open>App\<close>, run once on mount. With geolocation present it
  registers a watch and returns the cleanup, which is represented by the
  \<^verbatim>\<open>watchId\<close> it has captured; without it the effect returns no cleanup.
\<close>

definition watch_effect :: "shell \<Rightarrow> shell \<times> nat option" where
  "watch_effect s =
     (if geolocation s then
        (let watchId = nextWatchId s
         in (s\<lparr>watches := watches s @ [watchId], nextWatchId := watchId + 1\<rparr>, Some watchId))
      else (s, None))"

definition run_cleanup :: "nat option \<Rightarrow> shell \<Rightarrow> shell" where
  "run_cleanup cleanup s =
     (case cleanup of
        None \<Rightarrow> s
      | Some watchId \<Rightarrow> s\<lparr>watches := removeAll watchId (watches s)\<rparr>)"

subsection \<open>The startup fetches\<close>

text \<open>The answer of \<^verbatim>\<open>getSearchInfo\<close>, of which only \<^verbatim>\<open>text\<close> is read.\<close>

record SearchInfo =
  text_of :: string

definition loadVillageData ::
  "string \<Rightarrow> VillageInfo settled option \<Rightarrow> SearchInfo settled option \<Rightarrow> action list" where
  "loadVillageData nm insights search =
     [SetLoading True, GetVillageInsights nm] @
     (case insights of
        None \<Rightarrow> []
      | Some (Rejected error) \<Rightarrow> [ConsoleError error, SetLoading False]
      | Some (Resolved data) \<Rightarrow>
          [SetVillage data, GetSearchInfo ''current weather in Takam Nepal Myagdi''] @
          (case search of
             None \<Rightarrow> []
           | Some (Rejected error) \<Rightarrow> [ConsoleError error, SetLoading False]
           | Some (Resolved found) \<Rightarrow>
               [SetWeatherData \<lparr> temp = 16, desc = take 100 (text_of found) @ ''...'' \<rparr>,
                SetLoading False]))"

subsection \<open>The image upload\<close>

text \<open>\<^verbatim>\<open>String.prototype.split\<close> with a one-character separator, and array indexing.\<close>

fun split :: "char \<Rightarrow> string \<Rightarrow> string list" where
  "split c [] = [[]]"
| "split c (x # xs) =
     (if x = c then [] # split c xs
      else (case split c xs of
              [] \<Rightarrow> [[x]]
            | w # ws \<Rightarrow> (x # w) # ws))"

definition index :: "'a list \<Rightarrow> nat \<Rightarrow> 'a option" where
  "index xs i = (if i < length xs then Some (xs ! i) else None)"

text \<open>
  \<^verbatim>\<open>handleFileUpload\<close>. Its inputs are the files of the change event, what the
  reader produces for the first of them (\<open>None\<close> when the \<^verbatim>\<open>load\<close> event never
  fires) and how the identification call settles for the payload it is given.
\<close>

definition reader_onload :: "string \<Rightarrow> MountainInfo settled option \<Rightarrow> action list" where
  "reader_onload fullBase64 identified =
     [SetPreviewImage (Some fullBase64),
      IdentifyLandmark (index (split CHR '','' fullBase64) 1)] @
     (case identified of
        None \<Rightarrow> []
      | Some (Resolved info) \<Rightarrow> [SetLandmark (Some info), SetActiveTab Scanner, SetLoading False]
      | Some (Rejected err) \<Rightarrow>
          [Alert ''Failed to identify feature. Please try a clearer shot.'', SetLoading False])"

definition handleFileUpload ::
  "File list \<Rightarrow> string option \<Rightarrow> MountainInfo settled option \<Rightarrow> action list" where
  "handleFileUpload files loaded identified =
     (case files of
        [] \<Rightarrow> []
      | file # _ \<Rightarrow>
          [SetLoading True, ReadAsDataURL file] @
          (case loaded of
             None \<Rightarrow> []
           | Some fullBase64 \<Rightarrow> reader_onload fullBase64 identified))"

definition displayedAltitude :: "shell \<Rightarrow> real" where
  "displayedAltitude s =
     (case currentAltitude s of
        Some a \<Rightarrow> a
      | None \<Rightarrow> TrekPoint.altitude (MOCK_TREK_DATA ! 2))"

subsection \<open>Events of the shell\<close>

text \<open>
  Everything that writes the shell's state after mount: the buttons that select a
  tab, the button that clears the scan, the geolocation callbacks, the startup
  fetch and an upload.
\<close>

datatype event =
    SelectTab tab
  | ScanNext
  | CurrentPosition Coords
  | WatchPosition Coords
  | WatchError string
  | VillageData "VillageInfo settled option" "SearchInfo settled option"
  | FileChange "File list" "string option" "MountainInfo settled option"

fun actions_of :: "event \<Rightarrow> action list" where
  "actions_of (SelectTab t) = [SetActiveTab t]"
| "actions_of ScanNext = [SetLandmark None, SetPreviewImage None]"
| "actions_of (CurrentPosition pos) = on_position pos"
| "actions_of (WatchPosition position) = on_position position"
| "actions_of (WatchError error) = on_watch_error error"
| "actions_of (VillageData insights search) =
     loadVillageData ''Takam Village, Myagdi'' insights search"
| "actions_of (FileChange files loaded identified) = handleFileUpload files loaded identified"

fun run :: "event list \<Rightarrow> shell \<Rightarrow> shell" where
  "run [] s = s"
| "run (e # es) s = run es (exec (actions_of e) s)"

text \<open>The altitude, if any, that an event carries from the geolocation service.\<close>

fun reported_altitude :: "event \<Rightarrow> real option" where
  "reported_altitude (CurrentPosition pos) = Coords.altitude pos"
| "reported_altitude (WatchPosition position) = Coords.altitude position"
| "reported_altitude _ = None"

fun is_position :: "event \<Rightarrow> bool" where
  "is_position (CurrentPosition pos) = True"
| "is_position (WatchPosition position) = True"
| "is_position _ = False"

subsection \<open>The satellite map view: Leaflet objects\<close>

text \<open>
  The view keeps references to Leaflet objects and mutates them, and the user
  marker is reachable both from its own ref and from the map it was added to. The
  objects therefore live in a store, a list indexed by address, and a ref holds an
  address. Creating an object appends it to the store.

  Of a map the store records its two options, every camera command it has received
  (oldest first) and the addresses of its layers in the order they were added. What
  a camera command does to the pixels is Leaflet's business.
\<close>

type_synonym addr = nat

record Bounds =
  south :: real
  west :: real
  north :: real
  east :: real

datatype camera =
    SetView LatLng nat
  | FitBounds Bounds "nat \<times> nat"
  | FlyTo LatLng nat
  | FlyToBounds Bounds "nat \<times> nat"

text \<open>
  The \<^verbatim>\<open>html\<close> of the two \<^verbatim>\<open>divIcon\<close>s is fixed markup; the waypoint's markup has
  the waypoint's label spliced into it, which is all that is kept of it here.
\<close>

datatype html = UserDot | WaypointBadge string

record DivIcon =
  className :: string
  html :: html
  iconSize :: "nat \<times> nat"
  iconAnchor :: "nat \<times> nat"

record PathOptions =
  color :: string
  weight :: nat
  opacity :: real
  lineCap :: string
  lineJoin :: string
  dashArray :: string

datatype obj =
    is_Map: MapObj bool bool "camera list" "addr list"
  | is_TileLayer: TileLayerObj string nat
  | is_Marker: MarkerObj LatLng DivIcon nat
  | is_Polyline: PolylineObj "LatLng list" PathOptions

text \<open>
  The four refs of \<^verbatim>\<open>SatelliteMapView\<close> and the store. \<open>mapRef\<close> tells whether the
  container element is attached.
\<close>

record map_view =
  mapRef :: bool
  leafletMap :: "addr option"
  userMarker :: "addr option"
  trailLayer :: "addr option"
  heap :: "obj list"

definition mounted :: "bool \<Rightarrow> map_view" where
  "mounted container =
     \<lparr> mapRef = container, leafletMap = None, userMarker = None, trailLayer = None, heap = [] \<rparr>"

definition alloc :: "obj \<Rightarrow> map_view \<Rightarrow> addr \<times> map_view" where
  "alloc ob v = (length (heap v), v\<lparr>heap := heap v @ [ob]\<rparr>)"

text \<open>
  The Leaflet methods the view calls. Each acts on the object at the address it is
  given; an address that holds no object of the right kind cannot arise from a ref
  and leaves the store as it is.
\<close>

definition addTo :: "addr \<Rightarrow> addr \<Rightarrow> map_view \<Rightarrow> map_view" where
  "addTo layer m v =
     (if m < length (heap v) then
        (case heap v ! m of
           MapObj zc ac cams layers \<Rightarrow> v\<lparr>heap := (heap v)[m := MapObj zc ac cams (layers @ [layer])]\<rparr>
         | _ \<Rightarrow> v)
      else v)"

definition move_camera :: "addr \<Rightarrow> camera \<Rightarrow> map_view \<Rightarrow> map_view" where
  "move_camera m cam v =
     (if m < length (heap v) then
        (case heap v ! m of
           MapObj zc ac cams layers \<Rightarrow> v\<lparr>heap := (heap v)[m := MapObj zc ac (cams @ [cam]) layers]\<rparr>
         | _ \<Rightarrow> v)
      else v)"

definition setLatLng :: "addr \<Rightarrow> LatLng \<Rightarrow> map_view \<Rightarrow> map_view" where
  "setLatLng marker pos v =
     (if marker < length (heap v) then
        (case heap v ! marker of
           MarkerObj old icon z \<Rightarrow> v\<lparr>heap := (heap v)[marker := MarkerObj pos icon z]\<rparr>
         | _ \<Rightarrow> v)
      else v)"

text \<open>
  The bounds of a polyline enclose its points; a polyline without points has
  bounds that are not valid, which is \<open>None\<close>.
\<close>

definition extend :: "LatLng \<Rightarrow> Bounds \<Rightarrow> Bounds" where
  "extend p b =
     \<lparr> south = min (fst p) (south b), west = min (snd p) (west b),
       north = max (fst p) (north b), east = max (snd p) (east b) \<rparr>"

fun bounds_of :: "LatLng list \<Rightarrow> Bounds option" where
  "bounds_of [] = None"
| "bounds_of (p # ps) =
     Some (fold extend ps \<lparr> south = fst p, west = snd p, north = fst p, east = snd p \<rparr>)"

definition getBounds :: "addr \<Rightarrow> map_view \<Rightarrow> Bounds option" where
  "getBounds layer v =
     (if layer < length (heap v) then
        (case heap v ! layer of
           PolylineObj latLngs options \<Rightarrow> bounds_of latLngs
         | _ \<Rightarrow> None)
      else None)"

subsection \<open>The satellite map view: the effect and the two buttons\<close>

definition userIcon :: DivIcon where
  "userIcon =
     \<lparr> className = ''custom-user-icon'', html = UserDot,
       iconSize = (24, 24), iconAnchor = (12, 12) \<rparr>"

definition wpIcon :: "TrekPoint \<Rightarrow> DivIcon" where
  "wpIcon p =
     \<lparr> className = ''wp-icon'', html = WaypointBadge (label p),
       iconSize = (60, 40), iconAnchor = (30, 8) \<rparr>"

definition trailOptions :: PathOptions where
  "trailOptions =
     \<lparr> color = ''#10b981'', weight = 6, opacity = 0.8, lineCap = ''round'',
       lineJoin = ''round'', dashArray = ''1, 12'' \<rparr>"

definition tileUrl :: string where
  "tileUrl = ''https://server.arcgisonline.com/ArcGIS/rest/services/World_Imagery/MapServer/tile/{z}/{y}/{x}''"

definition add_waypoint :: "addr \<Rightarrow> TrekPoint \<Rightarrow> map_view \<Rightarrow> map_view" where
  "add_waypoint m p v =
     (let (w, v') = alloc (MarkerObj (TrekPoint.lat p, TrekPoint.lng p) (wpIcon p) 0) v
      in addTo w m v')"

text \<open>
  The body of the first \<^verbatim>\<open>if\<close> of the effect. \<^verbatim>\<open>fitBounds\<close> throws on bounds that
  are not valid; the result carries the message of what was thrown, if anything,
  beside the state reached.
\<close>

definition init_map :: "real \<Rightarrow> real \<Rightarrow> TrekPoint list \<Rightarrow> map_view \<Rightarrow> string option \<times> map_view" where
  "init_map la lo trail v0 =
     (let (m, v1) = alloc (MapObj False False [] []) v0;
          v2 = (move_camera m (SetView (la, lo) 13) v1)\<lparr>leafletMap := Some m\<rparr>;
          (t, v3) = alloc (TileLayerObj tileUrl 19) v2;
          v4 = addTo t m v3;
          (u, v5) = alloc (MarkerObj (la, lo) userIcon 1000) v4;
          v6 = (addTo u m v5)\<lparr>userMarker := Some u\<rparr>;
          latLngs = map (\<lambda>p. latLng (TrekPoint.lat p) (TrekPoint.lng p)) trail;
          (l, v7) = alloc (PolylineObj latLngs trailOptions) v6;
          v8 = (addTo l m v7)\<lparr>trailLayer := Some l\<rparr>;
          v9 = fold (add_waypoint m) trail v8
      in case getBounds l v9 of
           None \<Rightarrow> (Some ''Bounds are not valid.'', v9)
         | Some b \<Rightarrow> (None, move_camera m (FitBounds b (50, 50)) v9))"

text \<open>The effect of \<^verbatim>\<open>SatelliteMapView\<close>, run after a render with props \<open>lat\<close>, \<open>lng\<close>, \<open>trail\<close>.\<close>

definition map_effect :: "real \<Rightarrow> real \<Rightarrow> TrekPoint list \<Rightarrow> map_view \<Rightarrow> string option \<times> map_view" where
  "map_effect la lo trail v =
     (let (thrown, v1) =
            (if mapRef v \<and> leafletMap v = None then init_map la lo trail v else (None, v))
      in case thrown of
           Some e \<Rightarrow> (Some e, v1)
         | None \<Rightarrow>
             (None,
              if leafletMap v1 \<noteq> None then
                (case userMarker v1 of
                   None \<Rightarrow> v1
                 | Some u \<Rightarrow> setLatLng u (la, lo) v1)
              else v1))"

definition handleRecenter :: "real \<Rightarrow> real \<Rightarrow> map_view \<Rightarrow> map_view" where
  "handleRecenter la lo v =
     (case leafletMap v of
        None \<Rightarrow> v
      | Some m \<Rightarrow> move_camera m (FlyTo (la, lo) 15) v)"

definition showEntireTrail :: "map_view \<Rightarrow> string option \<times> map_view" where
  "showEntireTrail v =
     (case trailLayer v of
        None \<Rightarrow> (None, v)
      | Some l \<Rightarrow>
          (case leafletMap v of
             None \<Rightarrow> (None, v)
           | Some m \<Rightarrow>
               (case getBounds l v of
                  None \<Rightarrow> (Some ''Bounds are not valid.'', v)
                | Some b \<Rightarrow> (None, move_camera m (FlyToBounds b (50, 50)) v))))"

text \<open>
  The states of one view instance: it is mounted with empty refs, and then effects
  run (a throwing effect ends the instance) and the two buttons are pressed, in any
  order and with any props.
\<close>

inductive reach :: "map_view \<Rightarrow> bool" where
  mount: "reach (mounted container)"
| effect: "reach v \<Longrightarrow> map_effect la lo trail v = (None, v') \<Longrightarrow> reach v'"
| recenter: "reach v \<Longrightarrow> reach (handleRecenter la lo v)"
| fit: "reach v \<Longrightarrow> reach (snd (showEntireTrail v))"

text \<open>
  The layout of an initialised view, for comparison: the map at address 0 with its
  camera history and the layers 1, 2, 3, ..., the tile layer, the user marker at a
  position, the polyline of a trail, and one badge marker per waypoint of it.
\<close>

definition active_view :: "camera list \<Rightarrow> LatLng \<Rightarrow> TrekPoint list \<Rightarrow> map_view" where
  "active_view cams pos trail =
     \<lparr> mapRef = True, leafletMap = Some 0, userMarker = Some 2, trailLayer = Some 3,
       heap =
         [MapObj False False cams ([1, 2, 3] @ [4 ..< 4 + length trail]),
          TileLayerObj
            ''https://server.arcgisonline.com/ArcGIS/rest/services/World_Imagery/MapServer/tile/{z}/{y}/{x}''
            19,
          MarkerObj pos
            \<lparr> className = ''custom-user-icon'', html = UserDot,
              iconSize = (24, 24), iconAnchor = (12, 12) \<rparr>
            1000,
          PolylineObj (map (\<lambda>p. (TrekPoint.lat p, TrekPoint.lng p)) trail)
            \<lparr> color = ''#10b981'', weight = 6, opacity = 0.8, lineCap = ''round'',
              lineJoin = ''round'', dashArray = ''1, 12'' \<rparr>]
         @ map (\<lambda>p. MarkerObj (TrekPoint.lat p, TrekPoint.lng p)
                       \<lparr> className = ''wp-icon'', html = WaypointBadge (label p),
                         iconSize = (60, 40), iconAnchor = (30, 8) \<rparr>
                       0) trail \<rparr>"

text \<open>A view with every camera history erased: what is left is what is not camera.\<close>

fun forget_camera :: "obj \<Rightarrow> obj" where
  "forget_camera (MapObj zc ac cams layers) = MapObj zc ac [] layers"
| "forget_camera ob = ob"

definition beside_camera :: "map_view \<Rightarrow> map_view" where
  "beside_camera v = v\<lparr>heap := map forget_camera (heap v)\<rparr>"

text \<open>
  How \<^verbatim>\<open>App\<close> renders the view on the trek tab: the props are the stored location
  and the fixed trail, and the two buttons are handlers of the view, with no access
  to the shell's setters.
\<close>

definition trek_effect :: "shell \<times> map_view \<Rightarrow> string option \<times> shell \<times> map_view" where
  "trek_effect sv =
     (let s = fst sv;
          (thrown, v') =
            map_effect (Location.lat (currentLocation s)) (Location.lng (currentLocation s))
              MOCK_TREK_DATA (snd sv)
      in (thrown, s, v'))"

definition press_recenter :: "shell \<times> map_view \<Rightarrow> shell \<times> map_view" where
  "press_recenter sv =
     (let s = fst sv
      in (s, handleRecenter (Location.lat (currentLocation s)) (Location.lng (currentLocation s))
               (snd sv)))"

definition press_fit_trail :: "shell \<times> map_view \<Rightarrow> string option \<times> shell \<times> map_view" where
  "press_fit_trail sv =
     (let (thrown, v') = showEntireTrail (snd sv)
      in (thrown, fst sv, v'))"

text \<open>The stored altitude is absent or a whole number.\<close>

definition whole_altitude :: "shell \<Rightarrow> bool" where
  "whole_altitude s = (case currentAltitude s of None \<Rightarrow> True | Some r \<Rightarrow> r = of_int \<lfloor>r\<rfloor>)"

section \<open>Verification\<close>

subsection \<open>The distance helper\<close>



















subsection \<open>The image upload\<close>

text \<open>
  Claim C2, as amended. When the identification call of an upload rejects, the
  alert is shown and the landmark, the active tab and every other cell keep their
  values, except two: the preview image, which is the uploaded image (it was stored
  before the call), and the loading flag, which ends cleared.
\<close>

theorem upload_rejected_state:
  "exec (handleFileUpload (file # files) (Some fullBase64) (Some (Rejected err))) s =
     s\<lparr> loading := False,
        previewImage := Some fullBase64,
        alerts := alerts s @ [''Failed to identify feature. Please try a clearer shot.''] \<rparr>"
  by (simp add: handleFileUpload_def reader_onload_def)

text \<open>
  Claim C2 as stated fails: from the initial state, a rejected identification
  shows the alert and keeps landmark and tab, and yet the preview image has changed.
\<close>

theorem upload_rejected_mutates_preview:
  "alerts (exec (handleFileUpload [''peak.jpg''] (Some ''data:image/jpeg;base64,AAAA'')
             (Some (Rejected ''no match''))) (initial_shell True))
     = [''Failed to identify feature. Please try a clearer shot.'']
   \<and> landmark (exec (handleFileUpload [''peak.jpg''] (Some ''data:image/jpeg;base64,AAAA'')
             (Some (Rejected ''no match''))) (initial_shell True))
     = landmark (initial_shell True)
   \<and> activeTab (exec (handleFileUpload [''peak.jpg''] (Some ''data:image/jpeg;base64,AAAA'')
             (Some (Rejected ''no match''))) (initial_shell True))
     = activeTab (initial_shell True)
   \<and> previewImage (exec (handleFileUpload [''peak.jpg''] (Some ''data:image/jpeg;base64,AAAA'')
             (Some (Rejected ''no match''))) (initial_shell True))
     \<noteq> previewImage (initial_shell True)"
  by (simp add: handleFileUpload_def reader_onload_def initial_shell_def)

text \<open>
  Claim C3. When the identification call of an upload resolves, the active tab is
  the scanner and the stored landmark is the value the service returned; beside
  them only the preview image and the loading flag are written.
\<close>

theorem upload_resolved_state:
  "exec (handleFileUpload (file # files) (Some fullBase64) (Some (Resolved info))) s =
     s\<lparr> activeTab := Scanner,
        landmark := Some info,
        loading := False,
        previewImage := Some fullBase64 \<rparr>"
  by (simp add: handleFileUpload_def reader_onload_def)

text \<open>
  Claim C4. In an upload whose identification call is made and settles, either
  way, the effects before the call are exactly the three listed, the first of which
  raises the loading flag, so that the flag is up when the call begins; the whole
  handler clears the flag exactly once, as its last effect, and the flag is down
  afterwards. While the call has not settled, the flag has not been cleared.
\<close>

theorem upload_loading_flag:
  "takeWhile (\<lambda>a. a \<noteq> IdentifyLandmark (index (split CHR '','' fullBase64) 1))
       (handleFileUpload (file # files) (Some fullBase64) (Some outcome))
     = [SetLoading True, ReadAsDataURL file, SetPreviewImage (Some fullBase64)]
   \<and> loading (exec [SetLoading True, ReadAsDataURL file, SetPreviewImage (Some fullBase64)] s)
   \<and> count_list (handleFileUpload (file # files) (Some fullBase64) (Some outcome))
         (SetLoading False) = 1
   \<and> last (handleFileUpload (file # files) (Some fullBase64) (Some outcome)) = SetLoading False
   \<and> \<not> loading (exec (handleFileUpload (file # files) (Some fullBase64) (Some outcome)) s)
   \<and> handleFileUpload (file # files) (Some fullBase64) None
     = [SetLoading True, ReadAsDataURL file, SetPreviewImage (Some fullBase64),
        IdentifyLandmark (index (split CHR '','' fullBase64) 1)]
   \<and> loading (exec (handleFileUpload (file # files) (Some fullBase64) None) s)"
  by (cases outcome) (simp_all add: handleFileUpload_def reader_onload_def)

subsection \<open>Geolocation\<close>

lemma exec_on_position:
  "exec (on_position coords) s =
     s\<lparr> currentAltitude :=
          (case Coords.altitude coords of
             None \<Rightarrow> currentAltitude s
           | Some a \<Rightarrow> Some (Math_round a)),
        currentLocation :=
          \<lparr> Location.lat = latitude coords, Location.lng = longitude coords \<rparr> \<rparr>"
  by (simp add: on_position_def split: option.splits)

lemma Math_round_nearest: "\<bar>Math_round a - a\<bar> \<le> 1 / 2"
  unfolding Math_round_def by linarith

lemma event_keeps_location:
  "\<not> is_position e \<Longrightarrow> currentLocation (exec (actions_of e) s) = currentLocation s"
  by (cases e)
     (simp_all add: on_watch_error_def loadVillageData_def handleFileUpload_def reader_onload_def
        split: option.splits settled.splits list.splits)

lemma event_keeps_altitude:
  "reported_altitude e = None \<Longrightarrow> currentAltitude (exec (actions_of e) s) = currentAltitude s"
  by (cases e)
     (simp_all add: exec_on_position on_watch_error_def loadVillageData_def handleFileUpload_def
        reader_onload_def split: option.splits settled.splits list.splits)

lemma run_keeps_location:
  "\<forall>e \<in> set es. \<not> is_position e \<Longrightarrow> currentLocation (run es s) = currentLocation s"
  by (induction es arbitrary: s) (simp_all add: event_keeps_location)

lemma run_keeps_altitude:
  "\<forall>e \<in> set es. reported_altitude e = None \<Longrightarrow> currentAltitude (run es s) = currentAltitude s"
  by (induction es arbitrary: s) (simp_all add: event_keeps_altitude)

lemma event_whole_altitude:
  "whole_altitude s \<Longrightarrow> whole_altitude (exec (actions_of e) s)"
proof (cases "reported_altitude e")
  case None
  assume "whole_altitude s"
  then show ?thesis by (simp add: whole_altitude_def event_keeps_altitude [OF None])
next
  case (Some a)
  then have "currentAltitude (exec (actions_of e) s) = Some (Math_round a)"
    by (cases e) (simp_all add: exec_on_position)
  then show ?thesis by (simp add: whole_altitude_def Math_round_def)
qed

lemma run_whole_altitude: "whole_altitude s \<Longrightarrow> whole_altitude (run es s)"
  by (induction es arbitrary: s) (simp_all add: event_whole_altitude)

text \<open>
  Claim C8. A position delivered by the watch replaces the stored location by the
  reading's latitude and longitude, whatever was stored; the stored altitude is
  replaced by the rounded reading when the reading has an altitude and kept when it
  has none; nothing else is written. Where the browser has geolocation, the mount
  effect registers a watch and hands back a cleanup that removes that watch from
  any later state.
\<close>

theorem watch_update_and_teardown:
  "exec (actions_of (WatchPosition position)) s =
     s\<lparr> currentAltitude :=
          (case Coords.altitude position of
             None \<Rightarrow> currentAltitude s
           | Some a \<Rightarrow> Some (Math_round a)),
        currentLocation :=
          \<lparr> Location.lat = latitude position, Location.lng = longitude position \<rparr> \<rparr>
   \<and> (geolocation s \<longrightarrow>
        snd (watch_effect s) = Some (nextWatchId s)
        \<and> nextWatchId s \<in> set (watches (fst (watch_effect s)))
        \<and> nextWatchId s \<notin> set (watches (run_cleanup (snd (watch_effect s)) s')))"
  by (simp add: exec_on_position watch_effect_def run_cleanup_def Let_def)

theorem watch_update_and_teardown_witness:
  "geolocation (initial_shell True)
   \<and> currentLocation (exec (actions_of (WatchPosition
        \<lparr> latitude = 28.5, longitude = 83.25, Coords.altitude = Some 2199.5 \<rparr>)) (initial_shell True))
       = \<lparr> Location.lat = 28.5, Location.lng = 83.25 \<rparr>
   \<and> currentAltitude (exec (actions_of (WatchPosition
        \<lparr> latitude = 28.5, longitude = 83.25, Coords.altitude = Some 2199.5 \<rparr>)) (initial_shell True))
       = Some 2200
   \<and> watches (fst (watch_effect (initial_shell True))) = [1]
   \<and> watches (run_cleanup (snd (watch_effect (initial_shell True)))
        (fst (watch_effect (initial_shell True)))) = []"
proof -
  note w = watch_update_and_teardown
    [where position = "\<lparr> latitude = 28.5, longitude = 83.25, Coords.altitude = Some 2199.5 \<rparr>"
       and s = "initial_shell True" and s' = "fst (watch_effect (initial_shell True))"]
  have g: "geolocation (initial_shell True)" by (simp add: initial_shell_def)
  have r: "Math_round 2199.5 = 2200" by (simp add: Math_round_def)
  have c: "snd (watch_effect (initial_shell True)) = Some 1"
    using w g by (simp add: initial_shell_def)
  show ?thesis
    using w g r c by (simp add: initial_shell_def watch_effect_def run_cleanup_def)
qed

subsection \<open>The startup fetches\<close>

text \<open>
  Claim C9, as amended. A rejected village-insight fetch writes nothing but the
  console line and the cleared loading flag, so village and weather keep their
  values (absent, at startup). A rejected weather search does the same after the
  village has been stored from the insight that did arrive: only the weather keeps
  its value. No alert is shown in either case.
\<close>

theorem startup_fetch_rejected:
  "exec (loadVillageData nm (Some (Rejected error)) search) s =
     s\<lparr> loading := False, console := console s @ [error] \<rparr>
   \<and> exec (loadVillageData nm (Some (Resolved data)) (Some (Rejected error))) s =
     s\<lparr> village := Some data, loading := False, console := console s @ [error] \<rparr>"
  by (simp add: loadVillageData_def)

text \<open>
  Claim C9 as stated fails when it is the weather search that rejects: the village is
  no longer absent.
\<close>

theorem weather_rejected_village_stored:
  "village (initial_shell True) = None
   \<and> village (exec (actions_of (VillageData
        (Some (Resolved \<lparr> VillageInfo.name = ''Takam'', region = ''Myagdi'',
           VillageInfo.altitude = ''1,670m'', culture = ''Magar'', highlights = [''Terraces''] \<rparr>))
        (Some (Rejected ''offline'')))) (initial_shell True))
     = Some \<lparr> VillageInfo.name = ''Takam'', region = ''Myagdi'',
           VillageInfo.altitude = ''1,670m'', culture = ''Magar'', highlights = [''Terraces''] \<rparr>
   \<and> weatherData (exec (actions_of (VillageData
        (Some (Resolved \<lparr> VillageInfo.name = ''Takam'', region = ''Myagdi'',
           VillageInfo.altitude = ''1,670m'', culture = ''Magar'', highlights = [''Terraces''] \<rparr>))
        (Some (Rejected ''offline'')))) (initial_shell True))
     = None"
  by (simp add: loadVillageData_def initial_shell_def)

subsection \<open>Defaults of location and altitude\<close>

text \<open>
  Claim C10. The location stored at mount is (28.4230, 83.3333), the coordinates of
  the third waypoint, Takam Village, and it is still stored after any events none of
  which is a geolocation callback. After any events none of which reports an
  altitude, the displayed altitude is 1670, the altitude of that waypoint. An
  altitude stored from a reading is a whole number at most one half away from the
  reading, and the stored altitude is a whole number in every state the shell
  reaches.
\<close>

theorem location_and_altitude_defaults:
  "currentLocation (initial_shell geo) = \<lparr> Location.lat = 28.4230, Location.lng = 83.3333 \<rparr>
   \<and> label (MOCK_TREK_DATA ! 2) = ''Takam Village''
   \<and> TrekPoint.lat (MOCK_TREK_DATA ! 2) = 28.4230
   \<and> TrekPoint.lng (MOCK_TREK_DATA ! 2) = 83.3333
   \<and> TrekPoint.altitude (MOCK_TREK_DATA ! 2) = 1670
   \<and> ((\<forall>e \<in> set es. \<not> is_position e) \<longrightarrow>
        currentLocation (run es (initial_shell geo))
          = \<lparr> Location.lat = 28.4230, Location.lng = 83.3333 \<rparr>)
   \<and> ((\<forall>e \<in> set es. reported_altitude e = None) \<longrightarrow>
        displayedAltitude (run es (initial_shell geo)) = 1670)
   \<and> (Coords.altitude coords = Some a \<longrightarrow>
        (\<exists>k :: int. currentAltitude (exec (on_position coords) s) = Some (of_int k)
           \<and> \<bar>of_int k - a\<bar> \<le> 1 / 2))
   \<and> (case currentAltitude (run es (initial_shell geo)) of
         None \<Rightarrow> True
       | Some r \<Rightarrow> r = of_int \<lfloor>r\<rfloor>)"
proof -
  have wp: "MOCK_TREK_DATA ! 2 =
      \<lparr> day = 3, TrekPoint.altitude = 1670, label = ''Takam Village'',
        TrekPoint.lat = 28.4230, TrekPoint.lng = 83.3333 \<rparr>"
    by (simp add: MOCK_TREK_DATA_def)
  have loc0: "currentLocation (initial_shell geo)
      = \<lparr> Location.lat = 28.4230, Location.lng = 83.3333 \<rparr>"
    by (simp add: initial_shell_def)
  have alt0: "currentAltitude (initial_shell geo) = None"
    by (simp add: initial_shell_def)
  have loc: "currentLocation (run es (initial_shell geo))
      = \<lparr> Location.lat = 28.4230, Location.lng = 83.3333 \<rparr>"
    if "\<forall>e \<in> set es. \<not> is_position e"
    using run_keeps_location [OF that] loc0 by simp
  have alt: "displayedAltitude (run es (initial_shell geo)) = 1670"
    if "\<forall>e \<in> set es. reported_altitude e = None"
    using run_keeps_altitude [OF that, of "initial_shell geo"] alt0 wp
    by (simp add: displayedAltitude_def)
  have rnd: "\<exists>k :: int. currentAltitude (exec (on_position coords) s) = Some (of_int k)
           \<and> \<bar>of_int k - a\<bar> \<le> 1 / 2"
    if "Coords.altitude coords = Some a"
  proof -
    have "currentAltitude (exec (on_position coords) s) = Some (of_int \<lfloor>a + 1 / 2\<rfloor>)"
      using that by (simp add: exec_on_position Math_round_def)
    moreover have "\<bar>of_int \<lfloor>a + 1 / 2\<rfloor> - a\<bar> \<le> 1 / 2"
      using Math_round_nearest [of a] by (simp add: Math_round_def)
    ultimately show ?thesis by blast
  qed
  have "whole_altitude (initial_shell geo)"
    by (simp add: whole_altitude_def alt0)
  then have "whole_altitude (run es (initial_shell geo))"
    by (rule run_whole_altitude)
  then have whole: "case currentAltitude (run es (initial_shell geo)) of
         None \<Rightarrow> True
       | Some r \<Rightarrow> r = of_int \<lfloor>r\<rfloor>"
    by (simp add: whole_altitude_def)
  show ?thesis
    using wp loc0 loc alt rnd whole by simp
qed

theorem location_and_altitude_defaults_witness:
  "currentLocation (run [SelectTab Trek, WatchError ''denied'', ScanNext] (initial_shell True))
       = \<lparr> Location.lat = 28.4230, Location.lng = 83.3333 \<rparr>
   \<and> displayedAltitude
        (run [WatchPosition \<lparr> latitude = 28.5, longitude = 83.25, Coords.altitude = None \<rparr>,
              SelectTab Trek] (initial_shell True)) = 1670
   \<and> Coords.altitude \<lparr> latitude = 28.5, longitude = 83.25, Coords.altitude = Some 2199.5 \<rparr>
       = Some 2199.5
   \<and> (\<exists>k :: int. currentAltitude (exec (on_position
          \<lparr> latitude = 28.5, longitude = 83.25, Coords.altitude = Some 2199.5 \<rparr>)
            (initial_shell True)) = Some (of_int k)
        \<and> \<bar>of_int k - 2199.5\<bar> \<le> (1 / 2 :: real))"
proof -
  have h1: "\<forall>e \<in> set [SelectTab Trek, WatchError ''denied'', ScanNext]. \<not> is_position e"
    by simp
  have h2: "\<forall>e \<in> set [WatchPosition \<lparr> latitude = 28.5, longitude = 83.25, Coords.altitude = None \<rparr>,
                   SelectTab Trek]. reported_altitude e = None"
    by simp
  have h3: "Coords.altitude \<lparr> latitude = 28.5, longitude = 83.25, Coords.altitude = Some 2199.5 \<rparr>
       = Some 2199.5"
    by simp
  note t1 = location_and_altitude_defaults
    [where geo = True and es = "[SelectTab Trek, WatchError ''denied'', ScanNext]"]
  note t2 = location_and_altitude_defaults
    [where geo = True
       and es = "[WatchPosition \<lparr> latitude = 28.5, longitude = 83.25, Coords.altitude = None \<rparr>,
                  SelectTab Trek]"]
  note t3 = location_and_altitude_defaults
    [where geo = True and es = "[]" and s = "initial_shell True" and a = "2199.5"
       and coords = "\<lparr> latitude = 28.5, longitude = 83.25, Coords.altitude = Some 2199.5 \<rparr>"]
  have c1: "currentLocation (run [SelectTab Trek, WatchError ''denied'', ScanNext] (initial_shell True))
       = \<lparr> Location.lat = 28.4230, Location.lng = 83.3333 \<rparr>"
    using t1 h1 by blast
  have c2: "displayedAltitude
        (run [WatchPosition \<lparr> latitude = 28.5, longitude = 83.25, Coords.altitude = None \<rparr>,
              SelectTab Trek] (initial_shell True)) = 1670"
    using t2 h2 by blast
  have c3: "\<exists>k :: int. currentAltitude (exec (on_position
          \<lparr> latitude = 28.5, longitude = 83.25, Coords.altitude = Some 2199.5 \<rparr>)
            (initial_shell True)) = Some (of_int k)
        \<and> \<bar>of_int k - 2199.5\<bar> \<le> (1 / 2 :: real)"
    using t3 h3 by blast
  show ?thesis using h3 c1 c2 c3 by blast
qed

subsection \<open>The satellite map view\<close>

lemma active_view_code:
  "active_view cams pos trail =
     \<lparr> mapRef = True, leafletMap = Some 0, userMarker = Some 2, trailLayer = Some 3,
       heap =
         [MapObj False False cams ([1, 2, 3] @ [4 ..< 4 + length trail]),
          TileLayerObj tileUrl 19,
          MarkerObj pos userIcon 1000,
          PolylineObj (map (\<lambda>p. (TrekPoint.lat p, TrekPoint.lng p)) trail) trailOptions]
         @ map (\<lambda>p. MarkerObj (TrekPoint.lat p, TrekPoint.lng p) (wpIcon p) 0) trail \<rparr>"
  by (simp add: active_view_def tileUrl_def userIcon_def trailOptions_def wpIcon_def)

lemma add_waypoint_step:
  assumes "heap v = MapObj zc ac cams ls # rest"
  shows "add_waypoint 0 p v =
    v\<lparr>heap := MapObj zc ac cams (ls @ [Suc (length rest)]) #
               rest @ [MarkerObj (TrekPoint.lat p, TrekPoint.lng p) (wpIcon p) 0]\<rparr>"
  using assms by (simp add: add_waypoint_def alloc_def addTo_def)

lemma fold_add_waypoint:
  assumes "heap v = MapObj zc ac cams ls # rest"
  shows "fold (add_waypoint 0) trail v =
    v\<lparr>heap := MapObj zc ac cams (ls @ [Suc (length rest) ..< Suc (length rest) + length trail]) #
               rest @ map (\<lambda>p. MarkerObj (TrekPoint.lat p, TrekPoint.lng p) (wpIcon p) 0) trail\<rparr>"
  using assms
proof (induction trail arbitrary: v ls rest)
  case Nil
  then show ?case by simp
next
  case (Cons p trail)
  let ?v = "add_waypoint 0 p v"
  have h: "heap ?v = MapObj zc ac cams (ls @ [Suc (length rest)]) #
             (rest @ [MarkerObj (TrekPoint.lat p, TrekPoint.lng p) (wpIcon p) 0])"
    using add_waypoint_step [OF Cons.prems] by simp
  show ?case
    using Cons.IH [OF h] add_waypoint_step [OF Cons.prems, of p]
    by (simp del: upt_Suc add: upt_conv_Cons)
qed

lemma upt4: "[Suc (Suc (Suc (Suc 0))) ..< Suc (Suc (Suc (Suc 0))) + n] = [4 ..< 4 + n]"
proof -
  have "(4::nat) = Suc (Suc (Suc (Suc 0)))" by simp
  then show ?thesis by (simp only:)
qed

lemma fold_from_base:
  "fold (add_waypoint 0) trail
     \<lparr> mapRef = c, leafletMap = Some 0, userMarker = Some 2, trailLayer = Some 3,
       heap = MapObj False False cams [1, 2, 3] # [TileLayerObj tileUrl 19, MarkerObj pos userIcon 1000,
          PolylineObj (map (\<lambda>p. (TrekPoint.lat p, TrekPoint.lng p)) trail) trailOptions] \<rparr>
   = (active_view cams pos trail)\<lparr>mapRef := c\<rparr>"
proof -
  have len: "Suc (length [TileLayerObj tileUrl 19, MarkerObj pos userIcon 1000,
          PolylineObj (map (\<lambda>p. (TrekPoint.lat p, TrekPoint.lng p)) trail) trailOptions])
        = Suc (Suc (Suc (Suc 0)))"
    by simp
  show ?thesis
    apply (subst fold_add_waypoint [where zc = False and ac = False and cams = cams
          and ls = "[1, 2, 3]"
          and rest = "[TileLayerObj tileUrl 19, MarkerObj pos userIcon 1000,
          PolylineObj (map (\<lambda>p. (TrekPoint.lat p, TrekPoint.lng p)) trail) trailOptions]"])
     apply simp
    apply (simp only: len upt4)
    apply (simp add: active_view_code)
    done
qed

lemma init_map_fold_suc:
  "init_map la lo trail (mounted c) =
     (let v9 = fold (add_waypoint 0) trail
         \<lparr> mapRef = c, leafletMap = Some 0, userMarker = Some (Suc (Suc 0)),
           trailLayer = Some (Suc (Suc (Suc 0))),
           heap = [MapObj False False [SetView (la, lo) 13] [Suc 0, Suc (Suc 0), Suc (Suc (Suc 0))],
              TileLayerObj tileUrl 19, MarkerObj (la, lo) userIcon 1000,
              PolylineObj (map (\<lambda>p. (TrekPoint.lat p, TrekPoint.lng p)) trail) trailOptions] \<rparr>
      in case getBounds (Suc (Suc (Suc 0))) v9 of
           None \<Rightarrow> (Some ''Bounds are not valid.'', v9)
         | Some b \<Rightarrow> (None, move_camera 0 (FitBounds b (50, 50)) v9))"
  by (simp add: init_map_def mounted_def alloc_def move_camera_def addTo_def latLng_def)

lemma base_numerals:
  "\<lparr> mapRef = c, leafletMap = Some 0, userMarker = Some (Suc (Suc 0)),
           trailLayer = Some (Suc (Suc (Suc 0))),
           heap = [MapObj False False cams [Suc 0, Suc (Suc 0), Suc (Suc (Suc 0))],
              TileLayerObj tileUrl 19, MarkerObj pos userIcon 1000,
              PolylineObj lls trailOptions] \<rparr>
   = \<lparr> mapRef = c, leafletMap = Some 0, userMarker = Some 2, trailLayer = Some 3,
       heap = MapObj False False cams [1, 2, 3] # [TileLayerObj tileUrl 19, MarkerObj pos userIcon 1000,
          PolylineObj lls trailOptions] \<rparr>"
  by (simp add: numeral_2_eq_2 numeral_3_eq_3)

lemma getBounds_active:
  "getBounds (Suc (Suc (Suc 0))) ((active_view cams pos trail)\<lparr>mapRef := c\<rparr>)
     = bounds_of (map (\<lambda>p. (TrekPoint.lat p, TrekPoint.lng p)) trail)"
  by (simp add: getBounds_def active_view_code)

lemma move_camera_active:
  "move_camera 0 cam ((active_view cams pos trail)\<lparr>mapRef := c\<rparr>)
     = (active_view (cams @ [cam]) pos trail)\<lparr>mapRef := c\<rparr>"
  by (simp add: move_camera_def active_view_code)

lemma init_map_mounted:
  "init_map la lo trail (mounted c) =
     (case bounds_of (map (\<lambda>p. (TrekPoint.lat p, TrekPoint.lng p)) trail) of
        None \<Rightarrow> (Some ''Bounds are not valid.'', (active_view [SetView (la, lo) 13] (la, lo) trail)\<lparr>mapRef := c\<rparr>)
      | Some b \<Rightarrow> (None, (active_view [SetView (la, lo) 13, FitBounds b (50, 50)] (la, lo) trail)\<lparr>mapRef := c\<rparr>))"
  unfolding init_map_fold_suc base_numerals fold_from_base Let_def getBounds_active move_camera_active
  by (simp split: option.splits)

lemma bounds_of_nonempty: "ps \<noteq> [] \<Longrightarrow> \<exists>b. bounds_of ps = Some b"
  by (cases ps) simp_all

lemma map_effect_active:
  "map_effect la lo trail (active_view cams pos trail0) = (None, active_view cams (la, lo) trail0)"
  by (simp add: map_effect_def active_view_code setLatLng_def)

lemma map_effect_mounted:
  assumes "bounds_of (map (\<lambda>p. (TrekPoint.lat p, TrekPoint.lng p)) trail) = Some b"
  shows "map_effect la lo trail (mounted True) =
     (None, active_view [SetView (la, lo) 13, FitBounds b (50, 50)] (la, lo) trail)"
proof -
  have a: "(active_view cs p trail)\<lparr>mapRef := True\<rparr> = active_view cs p trail" for cs p
    by (simp add: active_view_code)
  have m: "mapRef (mounted True) \<and> leafletMap (mounted True) = None"
    by (simp add: mounted_def)
  show ?thesis
    using assms m by (simp add: map_effect_def init_map_mounted a) (simp add: active_view_code setLatLng_def)
qed

lemma map_effect_unattached: "map_effect la lo trail (mounted False) = (None, mounted False)"
  by (simp add: map_effect_def mounted_def)

lemma handleRecenter_active:
  "handleRecenter la lo (active_view cams pos trail0) = active_view (cams @ [FlyTo (la, lo) 15]) pos trail0"
  by (simp add: handleRecenter_def active_view_code move_camera_def)

lemma showEntireTrail_active:
  "\<exists>cams'. snd (showEntireTrail (active_view cams pos trail0)) = active_view cams' pos trail0"
  by (auto simp add: showEntireTrail_def active_view_code move_camera_def getBounds_def
      split: option.splits)

lemma reach_shape:
  "reach v \<Longrightarrow> (\<exists>c. v = mounted c) \<or> (\<exists>cams pos trail0. v = active_view cams pos trail0)"
proof (induction rule: reach.induct)
  case (mount container)
  then show ?case by blast
next
  case (effect v la lo trail v')
  from effect.IH show ?case
  proof (elim disjE exE)
    fix c assume v: "v = mounted c"
    show ?thesis
    proof (cases c)
      case True
      have a: "(active_view cs p trail)\<lparr>mapRef := True\<rparr> = active_view cs p trail" for cs p
        by (simp add: active_view_code)
      have m: "mapRef (mounted True) \<and> leafletMap (mounted True) = None"
        by (simp add: mounted_def)
      show ?thesis
      proof (cases "bounds_of (map (\<lambda>p. (TrekPoint.lat p, TrekPoint.lng p)) trail)")
        case None
        then have "fst (map_effect la lo trail (mounted True)) \<noteq> None"
          using m by (simp add: map_effect_def init_map_mounted)
        then show ?thesis using effect.hyps v True by simp
      next
        case (Some b)
        then have "v' = active_view [SetView (la, lo) 13, FitBounds b (50, 50)] (la, lo) trail"
          using map_effect_mounted [OF Some, of la lo] effect.hyps v True by simp
        then show ?thesis by blast
      qed
    next
      case False
      then have "v' = mounted False"
        using effect.hyps v map_effect_unattached [of la lo trail] by simp
      then show ?thesis by blast
    qed
  next
    fix cams pos trail0 assume "v = active_view cams pos trail0"
    then have "v' = active_view cams (la, lo) trail0"
      using effect.hyps map_effect_active [of la lo trail cams pos trail0] by simp
    then show ?thesis by blast
  qed
next
  case (recenter v la lo)
  from recenter.IH show ?case
  proof (elim disjE exE)
    fix c assume "v = mounted c"
    then have "handleRecenter la lo v = mounted c"
      by (simp add: handleRecenter_def mounted_def)
    then show ?thesis by blast
  next
    fix cams pos trail0 assume "v = active_view cams pos trail0"
    then have "handleRecenter la lo v = active_view (cams @ [FlyTo (la, lo) 15]) pos trail0"
      by (simp add: handleRecenter_active)
    then show ?thesis by blast
  qed
next
  case (fit v)
  from fit.IH show ?case
  proof (elim disjE exE)
    fix c assume "v = mounted c"
    then have "snd (showEntireTrail v) = mounted c"
      by (simp add: showEntireTrail_def mounted_def)
    then show ?thesis by blast
  next
    fix cams pos trail0 assume "v = active_view cams pos trail0"
    then obtain cams' where "snd (showEntireTrail v) = active_view cams' pos trail0"
      using showEntireTrail_active [of cams pos trail0] by auto
    then show ?thesis by blast
  qed
qed

lemma beside_camera_move: "beside_camera (move_camera m cam v) = beside_camera v"
proof (cases "m < length (heap v)")
  case True
  show ?thesis
  proof (cases "heap v ! m")
    case (MapObj zc ac cams layers)
    have "map forget_camera ((heap v)[m := MapObj zc ac (cams @ [cam]) layers])
            = (map forget_camera (heap v))[m := forget_camera (heap v ! m)]"
      by (simp add: map_update MapObj)
    also have "\<dots> = map forget_camera (heap v)"
      using True by (metis list_update_id map_update)
    finally show ?thesis
      using True MapObj by (simp add: beside_camera_def move_camera_def)
  qed (simp_all add: move_camera_def True)
next
  case False
  then show ?thesis by (simp add: move_camera_def)
qed

lemma active_view_counts:
  "length (filter is_Map (heap (active_view cams pos trail0))) = 1"
  "length (filter is_TileLayer (heap (active_view cams pos trail0))) = 1"
  "length (filter is_Polyline (heap (active_view cams pos trail0))) = 1"
  "length (filter is_Marker (heap (active_view cams pos trail0))) = Suc (length trail0)"
  by (simp_all add: active_view_code filter_map o_def)

lemma active_view_move_marker:
  "(active_view cams pos trail0)\<lparr>heap := (heap (active_view cams pos trail0))[2 := MarkerObj q userIcon 1000]\<rparr>
     = active_view cams q trail0"
  by (simp add: active_view_code)

text \<open>
  Claim C7. The first effect of a freshly mounted view whose container is attached,
  given a trail with at least one waypoint, throws nothing and leaves exactly the
  initialised layout: one map, whose first camera command is \<^verbatim>\<open>setView\<close> to the live
  location at zoom 13 (followed by \<^verbatim>\<open>fitBounds\<close> to the trail's bounds) and whose
  layers are all the objects created after it, in order; the tile layer; the user
  marker at the live location; the polyline through every waypoint of the trail in
  order; and then one marker per waypoint, in trail order, at the waypoint's
  coordinates, with the waypoint's label in its badge. With no container attached
  the effect creates nothing.
\<close>

theorem first_render_initialises:
  assumes "trail \<noteq> []"
  shows "\<exists>b. bounds_of (map (\<lambda>p. (TrekPoint.lat p, TrekPoint.lng p)) trail) = Some b
     \<and> map_effect la lo trail (mounted True)
         = (None, active_view [SetView (la, lo) 13, FitBounds b (50, 50)] (la, lo) trail)
     \<and> length (filter is_Map (heap (snd (map_effect la lo trail (mounted True))))) = 1
     \<and> length (filter is_TileLayer (heap (snd (map_effect la lo trail (mounted True))))) = 1
     \<and> length (filter is_Polyline (heap (snd (map_effect la lo trail (mounted True))))) = 1
     \<and> length (filter is_Marker (heap (snd (map_effect la lo trail (mounted True)))))
         = Suc (length trail)
     \<and> map_effect la lo trail (mounted False) = (None, mounted False)
     \<and> leafletMap (snd (map_effect la lo trail (mounted True))) = Some 0
     \<and> userMarker (snd (map_effect la lo trail (mounted True))) = Some 2
     \<and> trailLayer (snd (map_effect la lo trail (mounted True))) = Some 3
     \<and> take 4 (heap (snd (map_effect la lo trail (mounted True))))
         = [MapObj False False [SetView (la, lo) 13, FitBounds b (50, 50)]
              ([1, 2, 3] @ [4 ..< 4 + length trail]),
            TileLayerObj
              ''https://server.arcgisonline.com/ArcGIS/rest/services/World_Imagery/MapServer/tile/{z}/{y}/{x}''
              19,
            MarkerObj (la, lo)
              \<lparr> className = ''custom-user-icon'', html = UserDot,
                iconSize = (24, 24), iconAnchor = (12, 12) \<rparr>
              1000,
            PolylineObj (map (\<lambda>p. (TrekPoint.lat p, TrekPoint.lng p)) trail)
              \<lparr> color = ''#10b981'', weight = 6, opacity = 0.8, lineCap = ''round'',
                lineJoin = ''round'', dashArray = ''1, 12'' \<rparr>]
     \<and> drop 4 (heap (snd (map_effect la lo trail (mounted True))))
         = map (\<lambda>p. MarkerObj (TrekPoint.lat p, TrekPoint.lng p)
                       \<lparr> className = ''wp-icon'', html = WaypointBadge (label p),
                         iconSize = (60, 40), iconAnchor = (30, 8) \<rparr>
                       0) trail"
proof -
  from assms obtain b where
    b: "bounds_of (map (\<lambda>p. (TrekPoint.lat p, TrekPoint.lng p)) trail) = Some b"
    using bounds_of_nonempty [of "map (\<lambda>p. (TrekPoint.lat p, TrekPoint.lng p)) trail"] by auto
  have e: "map_effect la lo trail (mounted True)
         = (None, active_view [SetView (la, lo) 13, FitBounds b (50, 50)] (la, lo) trail)"
    by (rule map_effect_mounted [OF b])
  have r: "leafletMap (active_view cs p trail) = Some 0"
    "userMarker (active_view cs p trail) = Some 2"
    "trailLayer (active_view cs p trail) = Some 3" for cs p
    by (simp_all add: active_view_def)
  have h4: "take 4 (heap (active_view cs p trail))
         = [MapObj False False cs ([1, 2, 3] @ [4 ..< 4 + length trail]),
            TileLayerObj
              ''https://server.arcgisonline.com/ArcGIS/rest/services/World_Imagery/MapServer/tile/{z}/{y}/{x}''
              19,
            MarkerObj p
              \<lparr> className = ''custom-user-icon'', html = UserDot,
                iconSize = (24, 24), iconAnchor = (12, 12) \<rparr>
              1000,
            PolylineObj (map (\<lambda>p. (TrekPoint.lat p, TrekPoint.lng p)) trail)
              \<lparr> color = ''#10b981'', weight = 6, opacity = 0.8, lineCap = ''round'',
                lineJoin = ''round'', dashArray = ''1, 12'' \<rparr>]" for cs p
    by (simp add: active_view_def)
  have d4: "drop 4 (heap (active_view cs p trail))
         = map (\<lambda>p. MarkerObj (TrekPoint.lat p, TrekPoint.lng p)
                       \<lparr> className = ''wp-icon'', html = WaypointBadge (label p),
                         iconSize = (60, 40), iconAnchor = (30, 8) \<rparr>
                       0) trail" for cs p
    by (simp add: active_view_def)
  show ?thesis
    using b e map_effect_unattached [of la lo trail]
    by (simp add: active_view_counts r h4 d4)
qed

theorem first_render_initialises_witness:
  "map_effect 28.4230 83.3333 MOCK_TREK_DATA (mounted True)
     = (None,
        active_view
          [SetView (28.4230, 83.3333) 13,
           FitBounds \<lparr> south = 28.3444, west = 83.2167, north = 28.6750, east = 83.5651 \<rparr> (50, 50)]
          (28.4230, 83.3333) MOCK_TREK_DATA)
   \<and> map (\<lambda>ob. case ob of MarkerObj p icon z \<Rightarrow> html icon | _ \<Rightarrow> UserDot)
        (drop 4 (heap (snd (map_effect 28.4230 83.3333 MOCK_TREK_DATA (mounted True)))))
     = [WaypointBadge ''Beni'', WaypointBadge ''Darbang'', WaypointBadge ''Takam Village'',
        WaypointBadge ''Muri Village'', WaypointBadge ''Boghara'', WaypointBadge ''Dobang'',
        WaypointBadge ''Dhaulagiri BC'']"
proof -
  have ne: "MOCK_TREK_DATA \<noteq> []" by (simp add: MOCK_TREK_DATA_def)
  have bd: "bounds_of (map (\<lambda>p. (TrekPoint.lat p, TrekPoint.lng p)) MOCK_TREK_DATA)
      = Some \<lparr> south = 28.3444, west = 83.2167, north = 28.6750, east = 83.5651 \<rparr>"
    by (simp add: MOCK_TREK_DATA_def extend_def)
  from first_render_initialises [OF ne, of "28.4230" "83.3333"] bd
  have e: "map_effect 28.4230 83.3333 MOCK_TREK_DATA (mounted True)
     = (None,
        active_view
          [SetView (28.4230, 83.3333) 13,
           FitBounds \<lparr> south = 28.3444, west = 83.2167, north = 28.6750, east = 83.5651 \<rparr> (50, 50)]
          (28.4230, 83.3333) MOCK_TREK_DATA)"
    and d: "drop 4 (heap (snd (map_effect 28.4230 83.3333 MOCK_TREK_DATA (mounted True))))
         = map (\<lambda>p. MarkerObj (TrekPoint.lat p, TrekPoint.lng p)
                       \<lparr> className = ''wp-icon'', html = WaypointBadge (label p),
                         iconSize = (60, 40), iconAnchor = (30, 8) \<rparr>
                       0) MOCK_TREK_DATA"
    by auto
  have l: "map (\<lambda>ob. case ob of MarkerObj p icon z \<Rightarrow> html icon | _ \<Rightarrow> UserDot)
        (map (\<lambda>p. MarkerObj (TrekPoint.lat p, TrekPoint.lng p)
                       \<lparr> className = ''wp-icon'', html = WaypointBadge (label p),
                         iconSize = (60, 40), iconAnchor = (30, 8) \<rparr>
                       0) MOCK_TREK_DATA)
     = [WaypointBadge ''Beni'', WaypointBadge ''Darbang'', WaypointBadge ''Takam Village'',
        WaypointBadge ''Muri Village'', WaypointBadge ''Boghara'', WaypointBadge ''Dobang'',
        WaypointBadge ''Dhaulagiri BC'']"
    by (simp add: MOCK_TREK_DATA_def)
  show ?thesis
    unfolding d l using e by simp
qed

text \<open>
  Claim C5. In every state that an initialised view reaches, an effect run with any
  new position (and any trail prop) throws nothing and changes one thing: the
  position of the marker that the user-marker ref points to. The refs and every
  other object of the store, the map with its camera and its layers included, are
  the same, and nothing is created: the store keeps holding one map, one tile
  layer, one polyline and, beside the user marker, one marker per point of the
  polyline. In particular, after the shell has taken a position from the watch, the
  effect of the view that \<^verbatim>\<open>App\<close> renders puts the marker at that position.
\<close>

theorem position_update_moves_user_marker:
  assumes "reach v" and "leafletMap v \<noteq> None"
  shows "\<exists>u pos icon z lls opts.
           userMarker v = Some u \<and> u < length (heap v) \<and> heap v ! u = MarkerObj pos icon z
         \<and> map_effect la lo trail v = (None, v\<lparr>heap := (heap v)[u := MarkerObj (la, lo) icon z]\<rparr>)
         \<and> trek_effect (exec (actions_of (WatchPosition position)) s, v)
             = (None, exec (actions_of (WatchPosition position)) s,
                v\<lparr>heap := (heap v)[u := MarkerObj (latitude position, longitude position) icon z]\<rparr>)
         \<and> length (filter is_Map (heap v)) = 1
         \<and> length (filter is_TileLayer (heap v)) = 1
         \<and> length (filter is_Polyline (heap v)) = 1
         \<and> trailLayer v = Some 3 \<and> heap v ! 3 = PolylineObj lls opts
         \<and> length (filter is_Marker (heap v)) = Suc (length lls)"
proof -
  from reach_shape [OF assms(1)] assms(2)
  obtain cams pos trail0 where v: "v = active_view cams pos trail0"
    by (auto simp: mounted_def)
  have u: "userMarker v = Some 2" "2 < length (heap v)" "heap v ! 2 = MarkerObj pos userIcon 1000"
    by (simp_all add: v active_view_code)
  have l: "trailLayer v = Some 3"
    "heap v ! 3 = PolylineObj (map (\<lambda>p. (TrekPoint.lat p, TrekPoint.lng p)) trail0) trailOptions"
    by (simp_all add: v active_view_code)
  have e: "map_effect la' lo' trail' v
      = (None, v\<lparr>heap := (heap v)[2 := MarkerObj (la', lo') userIcon 1000]\<rparr>)" for la' lo' trail'
    unfolding v active_view_move_marker by (rule map_effect_active)
  have t: "trek_effect (exec (actions_of (WatchPosition position)) s, v)
      = (None, exec (actions_of (WatchPosition position)) s,
         v\<lparr>heap := (heap v)[2 := MarkerObj (latitude position, longitude position) userIcon 1000]\<rparr>)"
    by (simp add: trek_effect_def e exec_on_position)
  have m: "length (filter is_Marker (heap v))
      = Suc (length (map (\<lambda>p. (TrekPoint.lat p, TrekPoint.lng p)) trail0))"
    by (simp add: v active_view_counts)
  have c: "length (filter is_Map (heap v)) = 1" "length (filter is_TileLayer (heap v)) = 1"
    "length (filter is_Polyline (heap v)) = 1"
    by (simp_all add: v active_view_counts)
  show ?thesis
    using u l e [of la lo trail] t m c by blast
qed

theorem position_update_moves_user_marker_witness:
  "map_effect 28.5 83.25 MOCK_TREK_DATA
     (active_view
        [SetView (28.4230, 83.3333) 13,
         FitBounds \<lparr> south = 28.3444, west = 83.2167, north = 28.6750, east = 83.5651 \<rparr> (50, 50)]
        (28.4230, 83.3333) MOCK_TREK_DATA)
   = (None,
      active_view
        [SetView (28.4230, 83.3333) 13,
         FitBounds \<lparr> south = 28.3444, west = 83.2167, north = 28.6750, east = 83.5651 \<rparr> (50, 50)]
        (28.5, 83.25) MOCK_TREK_DATA)"
proof -
  let ?v = "active_view
        [SetView (28.4230, 83.3333) 13,
         FitBounds \<lparr> south = 28.3444, west = 83.2167, north = 28.6750, east = 83.5651 \<rparr> (50, 50)]
        (28.4230, 83.3333) MOCK_TREK_DATA"
  have bd: "bounds_of (map (\<lambda>p. (TrekPoint.lat p, TrekPoint.lng p)) MOCK_TREK_DATA)
      = Some \<lparr> south = 28.3444, west = 83.2167, north = 28.6750, east = 83.5651 \<rparr>"
    by (simp add: MOCK_TREK_DATA_def extend_def)
  have "map_effect 28.4230 83.3333 MOCK_TREK_DATA (mounted True) = (None, ?v)"
    by (rule map_effect_mounted [OF bd])
  then have r: "reach ?v"
    by (rule reach.effect [OF reach.mount])
  have i: "leafletMap ?v \<noteq> None"
    by (simp add: active_view_code)
  from position_update_moves_user_marker [OF r i, of "28.5" "83.25" MOCK_TREK_DATA]
  obtain u pos icon z where
    u: "userMarker ?v = Some u" and h: "heap ?v ! u = MarkerObj pos icon z"
    and e: "map_effect 28.5 83.25 MOCK_TREK_DATA ?v
              = (None, ?v\<lparr>heap := (heap ?v)[u := MarkerObj (28.5, 83.25) icon z]\<rparr>)"
    by blast
  from u have u2: "u = 2" by (simp add: active_view_code)
  from h have "icon = userIcon \<and> z = 1000" unfolding u2 by (simp add: active_view_code)
  then show ?thesis
    using e unfolding u2 by (simp add: active_view_move_marker)
qed

text \<open>
  Claim C6. Pressing Recenter or Fit-trail, in any state of the view and of the
  shell, leaves the shell as it is and leaves the view as it is once the camera
  histories are set aside: the refs, the layers of the map, the polyline, the
  markers and every other object are identical before and after.
\<close>

theorem camera_buttons_frame:
  "fst (press_recenter (s, v)) = s
   \<and> beside_camera (snd (press_recenter (s, v))) = beside_camera v
   \<and> fst (snd (press_fit_trail (s, v))) = s
   \<and> beside_camera (snd (snd (press_fit_trail (s, v)))) = beside_camera v"
  by (simp add: press_recenter_def press_fit_trail_def handleRecenter_def showEntireTrail_def
        beside_camera_move split: option.splits prod.splits)

end
